theory Spec2Isabelle
  imports Main
begin

section \<open>Values of the Go runtime and of the API packages\<close>

text \<open>
  Go error values. The client compares a receive error with \<open>io.EOF\<close> and with
  \<open>context.Canceled\<close>; every other error value it meets comes from the channel and is a
  gRPC status, a numeric code with a message (5 is NotFound, 14 is Unavailable).
  A Go result pair \<open>(value, err)\<close> is a pair whose second component is
  \<open>None\<close> for a nil error; a pointer or interface value is an option, \<open>None\<close> for nil.
\<close>

datatype error = EOF | Canceled | Status nat string

text \<open>A call either returns its results or panics.\<close>

datatype 'a outcome = Panic | Return 'a

text \<open>
  A channel of events as the sender sees it: the values sent so far, in order, and the
  number of times it has been closed. Closing a closed channel panics and so does sending
  on one; \<open>None\<close> is the panic. That a send waits for the receiver is not modelled.
\<close>

record 'ev chan =
  sent :: "'ev list"
  closes :: nat

definition close_chan :: "'ev chan \<Rightarrow> 'ev chan option" where
  "close_chan ch = (if closes ch = 0 then Some (ch\<lparr>closes := 1\<rparr>) else None)"

definition send_chan :: "'ev chan \<Rightarrow> 'ev \<Rightarrow> 'ev chan option" where
  "send_chan ch v = (if closes ch = 0 then Some (ch\<lparr>sent := sent ch @ [v]\<rparr>) else None)"

section \<open>Filter options\<close>

text \<open>
  The identifier types of the API packages are string types, so the zero value of a
  filter field is the empty string. \<open>ListOption\<close>, \<open>WatchOption\<close> and \<open>FilterOption\<close>
  have unexported methods; their only implementations are the two option structs below.
\<close>

record listOptions =
  subscriptionID :: string
  endpointID :: string

record watchOptions =
  subscriptionID :: string
  endpointID :: string

datatype FilterOption =
  filterSubscriptionOption (subID: string)
| filterEndpointOption (epID: string)

definition WithSubscriptionID :: "string \<Rightarrow> FilterOption" where
  "WithSubscriptionID i = filterSubscriptionOption i"

definition WithEndpointID :: "string \<Rightarrow> FilterOption" where
  "WithEndpointID i = filterEndpointOption i"

fun applyList :: "FilterOption \<Rightarrow> listOptions \<Rightarrow> listOptions" where
  "applyList (filterSubscriptionOption i) options = options\<lparr>listOptions.subscriptionID := i\<rparr>"
| "applyList (filterEndpointOption i) options = options\<lparr>listOptions.endpointID := i\<rparr>"

fun applyWatch :: "FilterOption \<Rightarrow> watchOptions \<Rightarrow> watchOptions" where
  "applyWatch (filterSubscriptionOption i) options = options\<lparr>watchOptions.subscriptionID := i\<rparr>"
| "applyWatch (filterEndpointOption i) options = options\<lparr>watchOptions.endpointID := i\<rparr>"

text \<open>The loops \<open>for _, opt := range opts\<close> of \<open>List\<close> and \<open>Watch\<close>.\<close>

fun range_applyList :: "FilterOption list \<Rightarrow> listOptions \<Rightarrow> listOptions" where
  "range_applyList [] options = options"
| "range_applyList (opt # opts) options = range_applyList opts (applyList opt options)"

fun range_applyWatch :: "FilterOption list \<Rightarrow> watchOptions \<Rightarrow> watchOptions" where
  "range_applyWatch [] options = options"
| "range_applyWatch (opt # opts) options = range_applyWatch opts (applyWatch opt options)"

section \<open>Requests, responses and the service client\<close>

record GetSubscriptionTaskRequest =
  ID :: string

record ListSubscriptionTasksRequest =
  SubscriptionID :: string
  EndpointID :: string

record WatchSubscriptionTasksRequest =
  SubscriptionID :: string
  EndpointID :: string

record 'task GetSubscriptionTaskResponse =
  Task :: "'task option"

record 'task ListSubscriptionTasksResponse =
  Tasks :: "'task list"

record 'ev WatchSubscriptionTasksResponse =
  Event :: 'ev

text \<open>
  What one call of \<open>stream.Recv()\<close> returns: a response pointer and an error. A stream is
  the sequence of results its successive \<open>Recv\<close> calls return.
\<close>

type_synonym 'ev recv = "'ev WatchSubscriptionTasksResponse option \<times> error option"

type_synonym 'ev stream = "'ev recv list"

text \<open>
  The interface \<open>E2SubscriptionTaskServiceClient\<close>: one function per method. What a
  method returns is decided by the remote service and the context.
\<close>

record ('ctx, 'task, 'ev) E2SubscriptionTaskServiceClient =
  GetSubscriptionTask ::
    "'ctx \<Rightarrow> GetSubscriptionTaskRequest \<Rightarrow> 'task GetSubscriptionTaskResponse option \<times> error option"
  ListSubscriptionTasks ::
    "'ctx \<Rightarrow> ListSubscriptionTasksRequest \<Rightarrow> 'task ListSubscriptionTasksResponse option \<times> error option"
  WatchSubscriptionTasks ::
    "'ctx \<Rightarrow> WatchSubscriptionTasksRequest \<Rightarrow> 'ev stream option \<times> error option"

text \<open>The remote calls a method of the client makes, in order.\<close>

datatype 'ctx rpc =
  CallGet 'ctx GetSubscriptionTaskRequest
| CallList 'ctx ListSubscriptionTasksRequest
| CallWatch 'ctx WatchSubscriptionTasksRequest

record ('conn, 'cl) localClient =
  conn :: "'conn option"
  client :: "'cl option"

section \<open>Get and List\<close>

definition Get ::
  "('conn, ('ctx, 'task, 'ev) E2SubscriptionTaskServiceClient) localClient \<Rightarrow> 'ctx \<Rightarrow> string
    \<Rightarrow> 'ctx rpc list \<times> ('task option \<times> error option) outcome" where
  "Get c ctx i =
     (let req = \<lparr>ID = i\<rparr> in
      case client c of
        None \<Rightarrow> ([], Panic)
      | Some cl \<Rightarrow>
          (case GetSubscriptionTask cl ctx req of
             (resp, Some err) \<Rightarrow> ([CallGet ctx req], Return (None, Some err))
           | (None, None) \<Rightarrow> ([CallGet ctx req], Panic)
           | (Some r, None) \<Rightarrow> ([CallGet ctx req], Return (Task r, None))))"

definition List ::
  "('conn, ('ctx, 'task, 'ev) E2SubscriptionTaskServiceClient) localClient \<Rightarrow> 'ctx
    \<Rightarrow> FilterOption list \<Rightarrow> 'ctx rpc list \<times> ('task list \<times> error option) outcome" where
  "List c ctx opts =
     (let options = range_applyList opts \<lparr>listOptions.subscriptionID = [], listOptions.endpointID = []\<rparr>;
          req = \<lparr>ListSubscriptionTasksRequest.SubscriptionID = listOptions.subscriptionID options,
                 ListSubscriptionTasksRequest.EndpointID = listOptions.endpointID options\<rparr> in
      case client c of
        None \<Rightarrow> ([], Panic)
      | Some cl \<Rightarrow>
          (case ListSubscriptionTasks cl ctx req of
             (resp, Some err) \<Rightarrow> ([CallList ctx req], Return ([], Some err))
           | (None, None) \<Rightarrow> ([CallList ctx req], Panic)
           | (Some r, None) \<Rightarrow> ([CallList ctx req], Return (Tasks r, None))))"

section \<open>Watch\<close>

text \<open>
  What \<open>Watch\<close> leaves behind when it returns: the error it returns, the caller's channel,
  and the goroutine it started, if any, with the stream that goroutine reads.
\<close>

datatype 'ev goroutine = NotStarted | Started "'ev stream option"

record 'ev watched =
  returned :: "error option"
  sink :: "'ev chan"
  relaying :: "'ev goroutine"

definition Watch ::
  "('conn, ('ctx, 'task, 'ev) E2SubscriptionTaskServiceClient) localClient \<Rightarrow> 'ctx \<Rightarrow> 'ev chan
    \<Rightarrow> FilterOption list \<Rightarrow> 'ctx rpc list \<times> 'ev watched outcome" where
  "Watch c ctx ch opts =
     (let options = range_applyWatch opts \<lparr>watchOptions.subscriptionID = [], watchOptions.endpointID = []\<rparr>;
          req = \<lparr>WatchSubscriptionTasksRequest.SubscriptionID = watchOptions.subscriptionID options,
                 WatchSubscriptionTasksRequest.EndpointID = watchOptions.endpointID options\<rparr> in
      case client c of
        None \<Rightarrow> ([], Panic)
      | Some cl \<Rightarrow>
          (case WatchSubscriptionTasks cl ctx req of
             (stream, Some err) \<Rightarrow>
               (case close_chan ch of
                  None \<Rightarrow> ([CallWatch ctx req], Panic)
                | Some ch' \<Rightarrow>
                    ([CallWatch ctx req],
                     Return \<lparr>returned = Some err, sink = ch', relaying = NotStarted\<rparr>))
           | (stream, None) \<Rightarrow>
               ([CallWatch ctx req],
                Return \<lparr>returned = None, sink = ch, relaying = Started stream\<rparr>)))"

text \<open>
  The goroutine. Its state is the channel, the errors passed to \<open>log.Error\<close>, and where
  the loop is: \<open>Running\<close> (in the loop, at the next \<open>Recv\<close>), \<open>Done\<close> (left the loop by
  \<open>break\<close>) or \<open>Panicked\<close>. Each iteration takes the next result of the stream; when the
  results given are used up the goroutine is still \<open>Running\<close>, waiting in \<open>Recv\<close>.
\<close>

datatype status = Running | Done | Panicked

record 'ev task =
  chan :: "'ev chan"
  logged :: "error list"
  status :: status

fun relay :: "'ev task \<Rightarrow> 'ev stream \<Rightarrow> 'ev task" where
  "relay t [] = t"
| "relay t ((resp, err) # rs) =
     (if err = Some EOF \<or> err = Some Canceled then
        (case close_chan (chan t) of
           None \<Rightarrow> t\<lparr>status := Panicked\<rparr>
         | Some ch' \<Rightarrow> t\<lparr>chan := ch', status := Done\<rparr>)
      else
        (let t1 = (case err of None \<Rightarrow> t | Some e \<Rightarrow> t\<lparr>logged := logged t @ [e]\<rparr>) in
         case resp of
           None \<Rightarrow> t1\<lparr>status := Panicked\<rparr>
         | Some r \<Rightarrow>
             (case send_chan (chan t1) (Event r) of
                None \<Rightarrow> t1\<lparr>status := Panicked\<rparr>
              | Some ch' \<Rightarrow> relay (t1\<lparr>chan := ch'\<rparr>) rs)))"

text \<open>The goroutine started on channel \<open>ch\<close>; calling \<open>Recv\<close> on a nil stream panics.\<close>

definition go_relay :: "'ev chan \<Rightarrow> 'ev stream option \<Rightarrow> 'ev task" where
  "go_relay ch stream =
     (case stream of
        None \<Rightarrow> \<lparr>chan = ch, logged = [], status = Panicked\<rparr>
      | Some rs \<Rightarrow> relay \<lparr>chan = ch, logged = [], status = Running\<rparr> rs)"

section \<open>NewClient\<close>

record Destination =
  Addrs :: "string list"

datatype 'cfg TransportCredentials = NewTLS "'cfg option"

datatype 'cfg DialOption = WithTransportCredentials "'cfg TransportCredentials"

text \<open>
  What \<open>NewClient\<close> calls: \<open>e2.GetClientCredentials\<close>, \<open>grpc.DialContext\<close> and the
  constructor of the service client. Their code is outside this file, so their results
  are parameters.
\<close>

record ('ctx, 'cfg, 'conn, 'cl) env =
  GetClientCredentials :: "'cfg option \<times> error option"
  DialContext :: "'ctx \<Rightarrow> string \<Rightarrow> 'cfg DialOption list \<Rightarrow> 'conn option \<times> error option"
  NewE2SubscriptionTaskServiceClient :: "'conn option \<Rightarrow> 'cl"

datatype ('ctx, 'cfg) envcall =
  CallGetClientCredentials
| CallDialContext 'ctx string "'cfg DialOption list"

definition NewClient ::
  "('ctx, 'cfg, 'conn, 'cl) env \<Rightarrow> 'ctx \<Rightarrow> Destination
    \<Rightarrow> ('ctx, 'cfg) envcall list \<times> (('conn, 'cl) localClient option \<times> error option) outcome" where
  "NewClient e ctx dst =
     (case GetClientCredentials e of
        (tlsConfig, Some err) \<Rightarrow>
          ([CallGetClientCredentials], Return (Some \<lparr>conn = None, client = None\<rparr>, Some err))
      | (tlsConfig, None) \<Rightarrow>
          (let opts = [WithTransportCredentials (NewTLS tlsConfig)] in
           case Addrs dst of
             [] \<Rightarrow> ([CallGetClientCredentials], Panic)
           | addr # _ \<Rightarrow>
               (case DialContext e ctx addr opts of
                  (cn, Some err) \<Rightarrow>
                    ([CallGetClientCredentials, CallDialContext ctx addr opts],
                     Return (Some \<lparr>conn = None, client = None\<rparr>, Some err))
                | (cn, None) \<Rightarrow>
                    (let cl = NewE2SubscriptionTaskServiceClient e cn in
                     ([CallGetClientCredentials, CallDialContext ctx addr opts],
                      Return (Some \<lparr>conn = cn, client = Some cl\<rparr>, None))))))"

text \<open>The addresses \<open>grpc.DialContext\<close> was called with, in order.\<close>

fun dialed :: "('ctx, 'cfg) envcall list \<Rightarrow> string list" where
  "dialed [] = []"
| "dialed (CallGetClientCredentials # cs) = dialed cs"
| "dialed (CallDialContext ctx addr opts # cs) = addr # dialed cs"

section \<open>Vocabulary of the properties\<close>

text \<open>
  The filter criteria as the specification describes them: zero or one subscription
  identifier and zero or one endpoint identifier, built by applying the options in
  order, each option setting its own field. On the wire an unset field is the empty
  string.
\<close>

record FilterCriteria =
  criterionSubscriptionID :: "string option"
  criterionEndpointID :: "string option"

definition unset :: FilterCriteria where
  "unset = \<lparr>criterionSubscriptionID = None, criterionEndpointID = None\<rparr>"

fun effect :: "FilterOption \<Rightarrow> FilterCriteria \<Rightarrow> FilterCriteria" where
  "effect (filterSubscriptionOption i) c = c\<lparr>criterionSubscriptionID := Some i\<rparr>"
| "effect (filterEndpointOption i) c = c\<lparr>criterionEndpointID := Some i\<rparr>"

definition fold_options :: "FilterOption list \<Rightarrow> FilterCriteria" where
  "fold_options opts = foldl (\<lambda>c opt. effect opt c) unset opts"

fun wire :: "string option \<Rightarrow> string" where
  "wire None = []"
| "wire (Some i) = i"

text \<open>The values a list of options writes to each field, in order, and the last of them.\<close>

fun subscription_writes :: "FilterOption list \<Rightarrow> string list" where
  "subscription_writes [] = []"
| "subscription_writes (filterSubscriptionOption i # opts) = i # subscription_writes opts"
| "subscription_writes (filterEndpointOption i # opts) = subscription_writes opts"

fun endpoint_writes :: "FilterOption list \<Rightarrow> string list" where
  "endpoint_writes [] = []"
| "endpoint_writes (filterSubscriptionOption i # opts) = endpoint_writes opts"
| "endpoint_writes (filterEndpointOption i # opts) = i # endpoint_writes opts"

fun last_write :: "string list \<Rightarrow> string option" where
  "last_write [] = None"
| "last_write (w # ws) = Some (last (w # ws))"

text \<open>
  A receive result is terminal when its error is \<open>io.EOF\<close> or \<open>context.Canceled\<close>, the
  condition the loop tests. \<open>live rs\<close> are the results before the first terminal one,
  \<open>answered rs\<close> those of them before the first nil response, and \<open>events rs\<close> the events
  of the non-nil responses of \<open>rs\<close>, in order.
\<close>

definition terminal :: "'ev recv \<Rightarrow> bool" where
  "terminal r = (snd r = Some EOF \<or> snd r = Some Canceled)"

definition live :: "'ev stream \<Rightarrow> 'ev stream" where
  "live rs = takeWhile (\<lambda>r. \<not> terminal r) rs"

definition answered :: "'ev stream \<Rightarrow> 'ev stream" where
  "answered rs = takeWhile (\<lambda>r. fst r \<noteq> None) (live rs)"

definition events :: "'ev stream \<Rightarrow> 'ev list" where
  "events rs = List.map_filter (\<lambda>r. map_option Event (fst r)) rs"

section \<open>Concrete values for the examples\<close>

definition open_chan :: "string chan" where
  "open_chan = \<lparr>sent = [], closes = 0\<rparr>"

definition unavailable :: error where
  "unavailable = Status 14 ''unavailable''"

definition not_found :: error where
  "not_found = Status 5 ''not found''"

text \<open>
  A service in which task \<open>''t1''\<close> exists and every other identifier is not found; the
  context \<open>False\<close> is one whose channel is broken.
\<close>

definition sample_service :: "(bool, string, string) E2SubscriptionTaskServiceClient" where
  "sample_service =
     \<lparr>GetSubscriptionTask = (\<lambda>ctx req.
         if \<not> ctx then (None, Some unavailable)
         else if ID req = ''t1'' then (Some \<lparr>Task = Some ''task one''\<rparr>, None)
         else (None, Some not_found)),
      ListSubscriptionTasks = (\<lambda>ctx req.
         if \<not> ctx then (None, Some unavailable) else (Some \<lparr>Tasks = [''task one'']\<rparr>, None)),
      WatchSubscriptionTasks = (\<lambda>ctx req.
         if \<not> ctx then (None, Some unavailable)
         else (Some [(Some \<lparr>Event = ''created''\<rparr>, None), (None, Some EOF)], None))\<rparr>"

definition sample_client :: "(nat, (bool, string, string) E2SubscriptionTaskServiceClient) localClient" where
  "sample_client = \<lparr>conn = Some 0, client = Some sample_service\<rparr>"

text \<open>
  An environment in which the credentials are there or not, and only the address
  \<open>''good:5150''\<close> can be dialed.
\<close>

definition sample_env :: "bool \<Rightarrow> (bool, string, nat, nat) env" where
  "sample_env have_credentials =
     \<lparr>GetClientCredentials =
        (if have_credentials then (Some ''tls'', None) else (None, Some (Status 2 ''no credentials''))),
      DialContext = (\<lambda>ctx addr opts.
        if addr = ''good:5150'' then (Some 7, None) else (None, Some unavailable)),
      NewE2SubscriptionTaskServiceClient = (\<lambda>cn. case cn of None \<Rightarrow> 0 | Some n \<Rightarrow> Suc n)\<rparr>"

section \<open>Filter criteria of List and Watch\<close>

lemma range_applyList_fold:
  "listOptions.subscriptionID options = wire (criterionSubscriptionID c) \<Longrightarrow>
   listOptions.endpointID options = wire (criterionEndpointID c) \<Longrightarrow>
   listOptions.subscriptionID (range_applyList opts options) =
     wire (criterionSubscriptionID (foldl (\<lambda>c opt. effect opt c) c opts)) \<and>
   listOptions.endpointID (range_applyList opts options) =
     wire (criterionEndpointID (foldl (\<lambda>c opt. effect opt c) c opts))"
proof (induction opts arbitrary: options c)
  case Nil
  then show ?case by simp
next
  case (Cons opt opts)
  show ?case
  proof (cases opt)
    case (filterSubscriptionOption i)
    with Cons.prems Cons.IH [of "applyList opt options" "effect opt c"] show ?thesis by simp
  next
    case (filterEndpointOption i)
    with Cons.prems Cons.IH [of "applyList opt options" "effect opt c"] show ?thesis by simp
  qed
qed

lemma range_applyWatch_fold:
  "watchOptions.subscriptionID options = wire (criterionSubscriptionID c) \<Longrightarrow>
   watchOptions.endpointID options = wire (criterionEndpointID c) \<Longrightarrow>
   watchOptions.subscriptionID (range_applyWatch opts options) =
     wire (criterionSubscriptionID (foldl (\<lambda>c opt. effect opt c) c opts)) \<and>
   watchOptions.endpointID (range_applyWatch opts options) =
     wire (criterionEndpointID (foldl (\<lambda>c opt. effect opt c) c opts))"
proof (induction opts arbitrary: options c)
  case Nil
  then show ?case by simp
next
  case (Cons opt opts)
  show ?case
  proof (cases opt)
    case (filterSubscriptionOption i)
    with Cons.prems Cons.IH [of "applyWatch opt options" "effect opt c"] show ?thesis by simp
  next
    case (filterEndpointOption i)
    with Cons.prems Cons.IH [of "applyWatch opt options" "effect opt c"] show ?thesis by simp
  qed
qed

lemma foldl_effect_subscription:
  "criterionSubscriptionID (foldl (\<lambda>c opt. effect opt c) c opts) =
     (case last_write (subscription_writes opts) of None \<Rightarrow> criterionSubscriptionID c | Some i \<Rightarrow> Some i)"
proof (induction opts arbitrary: c)
  case Nil
  show ?case by simp
next
  case (Cons opt opts)
  show ?case
    by (cases opt; cases "subscription_writes opts") (simp_all add: Cons.IH)
qed

lemma foldl_effect_endpoint:
  "criterionEndpointID (foldl (\<lambda>c opt. effect opt c) c opts) =
     (case last_write (endpoint_writes opts) of None \<Rightarrow> criterionEndpointID c | Some i \<Rightarrow> Some i)"
proof (induction opts arbitrary: c)
  case Nil
  show ?case by simp
next
  case (Cons opt opts)
  show ?case
    by (cases opt; cases "endpoint_writes opts") (simp_all add: Cons.IH)
qed

lemma List_request:
  "client c = Some cl \<Longrightarrow>
   fst (List c ctx opts) =
     [CallList ctx \<lparr>ListSubscriptionTasksRequest.SubscriptionID =
                       listOptions.subscriptionID (range_applyList opts \<lparr>listOptions.subscriptionID = [], listOptions.endpointID = []\<rparr>),
                    ListSubscriptionTasksRequest.EndpointID =
                       listOptions.endpointID (range_applyList opts \<lparr>listOptions.subscriptionID = [], listOptions.endpointID = []\<rparr>)\<rparr>]"
  by (simp add: List_def Let_def split: prod.splits option.splits)

lemma Watch_request:
  "client c = Some cl \<Longrightarrow>
   fst (Watch c ctx ch opts) =
     [CallWatch ctx \<lparr>WatchSubscriptionTasksRequest.SubscriptionID =
                       watchOptions.subscriptionID (range_applyWatch opts \<lparr>watchOptions.subscriptionID = [], watchOptions.endpointID = []\<rparr>),
                    WatchSubscriptionTasksRequest.EndpointID =
                       watchOptions.endpointID (range_applyWatch opts \<lparr>watchOptions.subscriptionID = [], watchOptions.endpointID = []\<rparr>)\<rparr>]"
  by (simp add: Watch_def Let_def split: prod.splits option.splits)

text \<open>
  C2. For every list of options given to \<open>List\<close> or \<open>Watch\<close>, the filter fields of the
  request sent are those of the left-to-right fold of the options' effects from unset
  criteria; each field holds the last value written to it, so a later option overrides
  an earlier one on the same field; with no options both fields are empty.
\<close>

theorem filter_criteria_fold:
  assumes "client c = Some cl"
  shows "fst (List c ctx opts) =
           [CallList ctx \<lparr>ListSubscriptionTasksRequest.SubscriptionID = wire (criterionSubscriptionID (fold_options opts)),
                          ListSubscriptionTasksRequest.EndpointID = wire (criterionEndpointID (fold_options opts))\<rparr>]
       \<and> fst (Watch c ctx ch opts) =
           [CallWatch ctx \<lparr>WatchSubscriptionTasksRequest.SubscriptionID = wire (criterionSubscriptionID (fold_options opts)),
                           WatchSubscriptionTasksRequest.EndpointID = wire (criterionEndpointID (fold_options opts))\<rparr>]
       \<and> criterionSubscriptionID (fold_options opts) = last_write (subscription_writes opts)
       \<and> criterionEndpointID (fold_options opts) = last_write (endpoint_writes opts)
       \<and> fst (List c ctx []) =
           [CallList ctx \<lparr>ListSubscriptionTasksRequest.SubscriptionID = [], ListSubscriptionTasksRequest.EndpointID = []\<rparr>]
       \<and> fst (Watch c ctx ch []) =
           [CallWatch ctx \<lparr>WatchSubscriptionTasksRequest.SubscriptionID = [], WatchSubscriptionTasksRequest.EndpointID = []\<rparr>]"
proof -
  have l: "fst (List c ctx opts) =
           [CallList ctx \<lparr>ListSubscriptionTasksRequest.SubscriptionID = wire (criterionSubscriptionID (fold_options opts)),
                          ListSubscriptionTasksRequest.EndpointID = wire (criterionEndpointID (fold_options opts))\<rparr>]"
    using range_applyList_fold [of "\<lparr>listOptions.subscriptionID = [], listOptions.endpointID = []\<rparr>" unset opts]
    by (simp add: List_request [OF assms] fold_options_def unset_def)
  have w: "fst (Watch c ctx ch opts) =
           [CallWatch ctx \<lparr>WatchSubscriptionTasksRequest.SubscriptionID = wire (criterionSubscriptionID (fold_options opts)),
                           WatchSubscriptionTasksRequest.EndpointID = wire (criterionEndpointID (fold_options opts))\<rparr>]"
    using range_applyWatch_fold [of "\<lparr>watchOptions.subscriptionID = [], watchOptions.endpointID = []\<rparr>" unset opts]
    by (simp add: Watch_request [OF assms] fold_options_def unset_def)
  have s: "criterionSubscriptionID (fold_options opts) = last_write (subscription_writes opts)"
    by (simp add: fold_options_def foldl_effect_subscription unset_def split: option.splits)
  have e: "criterionEndpointID (fold_options opts) = last_write (endpoint_writes opts)"
    by (simp add: fold_options_def foldl_effect_endpoint unset_def split: option.splits)
  have l0: "fst (List c ctx []) =
           [CallList ctx \<lparr>ListSubscriptionTasksRequest.SubscriptionID = [], ListSubscriptionTasksRequest.EndpointID = []\<rparr>]"
    by (simp add: List_request [OF assms])
  have w0: "fst (Watch c ctx ch []) =
           [CallWatch ctx \<lparr>WatchSubscriptionTasksRequest.SubscriptionID = [], WatchSubscriptionTasksRequest.EndpointID = []\<rparr>]"
    by (simp add: Watch_request [OF assms])
  from l w s e l0 w0 show ?thesis by blast
qed

text \<open>
  C2, at a concrete input: a subscription filter \<open>A\<close>, an endpoint filter \<open>E\<close>, then a
  subscription filter \<open>B\<close> give a request filtered on \<open>B\<close> and \<open>E\<close>.
\<close>

theorem filter_criteria_fold_witness:
  "client sample_client = Some sample_service
   \<and> fst (List sample_client True [WithSubscriptionID ''A'', WithEndpointID ''E'', WithSubscriptionID ''B'']) =
       [CallList True \<lparr>ListSubscriptionTasksRequest.SubscriptionID = ''B'',
                       ListSubscriptionTasksRequest.EndpointID = ''E''\<rparr>]
   \<and> fst (Watch sample_client True open_chan [WithSubscriptionID ''A'', WithEndpointID ''E'', WithSubscriptionID ''B'']) =
       [CallWatch True \<lparr>WatchSubscriptionTasksRequest.SubscriptionID = ''B'',
                        WatchSubscriptionTasksRequest.EndpointID = ''E''\<rparr>]
   \<and> fst (List sample_client True []) =
       [CallList True \<lparr>ListSubscriptionTasksRequest.SubscriptionID = [],
                       ListSubscriptionTasksRequest.EndpointID = []\<rparr>]"
proof -
  have h: "client sample_client = Some sample_service"
    by (simp add: sample_client_def)
  from h filter_criteria_fold [OF h, of True "[WithSubscriptionID ''A'', WithEndpointID ''E'', WithSubscriptionID ''B'']" open_chan]
  show ?thesis
    by (simp add: fold_options_def unset_def WithSubscriptionID_def WithEndpointID_def)
qed

section \<open>The relaying goroutine of Watch\<close>

lemma live_Cons:
  "live (r # rs) = (if terminal r then [] else r # live rs)"
  by (simp add: live_def)

lemma answered_Cons:
  "answered (r # rs) = (if terminal r \<or> fst r = None then [] else r # answered rs)"
  by (simp add: answered_def live_Cons)

lemma events_Cons:
  "events (r # rs) = (case fst r of None \<Rightarrow> events rs | Some x \<Rightarrow> Event x # events rs)"
  by (simp add: events_def map_filter_simps split: option.splits)

lemma events_Nil: "events [] = []"
  by (simp add: events_def map_filter_simps)

lemma relay_sent:
  "closes (chan t) = 0 \<Longrightarrow> sent (chan (relay t rs)) = sent (chan t) @ events (answered rs)"
proof (induction rs arbitrary: t)
  case Nil
  show ?case by (simp add: answered_def live_def events_Nil)
next
  case (Cons r rs)
  obtain resp err where r: "r = (resp, err)" by (cases r)
  show ?case
  proof (cases "terminal r")
    case True
    with Cons.prems r show ?thesis
      by (auto simp: terminal_def answered_Cons events_Nil close_chan_def)
  next
    case False
    show ?thesis
    proof (cases resp)
      case None
      with False r show ?thesis
        by (auto simp: terminal_def answered_Cons events_Nil split: option.splits)
    next
      case (Some x)
      with False r Cons.prems show ?thesis
        by (auto simp: terminal_def answered_Cons events_Cons send_chan_def Cons.IH split: option.splits)
    qed
  qed
qed

lemma relay_status:
  "closes (chan t) = 0 \<Longrightarrow> status t = Running \<Longrightarrow>
   status (relay t rs) =
     (if answered rs \<noteq> live rs then Panicked else if live rs \<noteq> rs then Done else Running)"
proof (induction rs arbitrary: t)
  case Nil
  then show ?case by (simp add: answered_def live_def)
next
  case (Cons r rs)
  obtain resp err where r: "r = (resp, err)" by (cases r)
  show ?case
  proof (cases "terminal r")
    case True
    with Cons.prems r show ?thesis
      by (auto simp: terminal_def answered_Cons live_Cons close_chan_def)
  next
    case False
    show ?thesis
    proof (cases resp)
      case None
      with False r show ?thesis
        by (auto simp: terminal_def answered_Cons live_Cons split: option.splits)
    next
      case (Some x)
      with False r Cons.prems show ?thesis
        by (auto simp: terminal_def answered_Cons live_Cons send_chan_def Cons.IH split: option.splits)
    qed
  qed
qed

lemma relay_closes:
  "closes (chan t) = 0 \<Longrightarrow>
   closes (chan (relay t rs)) = (if answered rs = live rs \<and> live rs \<noteq> rs then 1 else 0)"
proof (induction rs arbitrary: t)
  case Nil
  then show ?case by (simp add: answered_def live_def)
next
  case (Cons r rs)
  obtain resp err where r: "r = (resp, err)" by (cases r)
  show ?case
  proof (cases "terminal r")
    case True
    with Cons.prems r show ?thesis
      by (auto simp: terminal_def answered_Cons live_Cons close_chan_def)
  next
    case False
    show ?thesis
    proof (cases resp)
      case None
      with False r Cons.prems show ?thesis
        by (auto simp: terminal_def answered_Cons live_Cons split: option.splits)
    next
      case (Some x)
      with False r Cons.prems show ?thesis
        by (auto simp: terminal_def answered_Cons live_Cons send_chan_def Cons.IH split: option.splits)
    qed
  qed
qed

lemma answered_eq_live: "(answered rs = live rs) = (\<forall>r\<in>set (live rs). fst r \<noteq> None)"
  by (simp add: answered_def takeWhile_eq_all_conv)

lemma live_neq: "(live rs \<noteq> rs) = (\<exists>r\<in>set rs. terminal r)"
  by (auto simp: live_def takeWhile_eq_all_conv)


lemma relay_append_ok:
  "closes (chan t) = 0 \<Longrightarrow> \<forall>r\<in>set rs. fst r \<noteq> None \<and> snd r = None \<Longrightarrow>
   relay t (rs @ rest) = relay (t\<lparr>chan := (chan t)\<lparr>sent := sent (chan t) @ events rs\<rparr>\<rparr>) rest"
proof (induction rs arbitrary: t)
  case Nil
  show ?case by (simp add: events_Nil)
next
  case (Cons r rs)
  obtain x where r: "r = (Some x, None)" using Cons.prems(2) by (cases r) auto
  let ?t = "t\<lparr>chan := (chan t)\<lparr>sent := sent (chan t) @ [Event x]\<rparr>\<rparr>"
  have "relay t ((r # rs) @ rest) = relay ?t (rs @ rest)"
    using Cons.prems(1) by (simp add: r send_chan_def)
  also have "\<dots> = relay (?t\<lparr>chan := (chan ?t)\<lparr>sent := sent (chan ?t) @ events rs\<rparr>\<rparr>) rest"
    using Cons.prems by (intro Cons.IH) simp_all
  finally show ?case by (simp add: r events_Cons)
qed

lemma events_append: "events (xs @ ys) = events xs @ events ys"
  by (simp add: events_def map_filter_def)

lemma events_answered_map:
  "\<forall>r\<in>set rs. fst r \<noteq> None \<Longrightarrow> events rs = map (\<lambda>r. Event (the (fst r))) rs"
  by (induction rs) (auto simp: events_Nil events_Cons)

lemma answered_responses: "\<forall>r\<in>set (answered rs). fst r \<noteq> None"
  unfolding answered_def by (auto dest: set_takeWhileD)

lemma answered_append_ok:
  "\<forall>r\<in>set rs. fst r \<noteq> None \<and> snd r = None \<Longrightarrow> answered (rs @ rest) = rs @ answered rest"
  by (induction rs) (auto simp: answered_Cons terminal_def)

text \<open>
  C1, as stated, fails where a receive returns a transport error: the goroutine does not
  close the channel. With a nil response it stops in a panic with the channel open; with
  a non-nil response it forwards the event and stays in the loop with the channel open.
\<close>

theorem relay_transport_error_counterexample:
  "closes (chan (go_relay open_chan (Some [(None, Some unavailable)]))) = 0
   \<and> status (go_relay open_chan (Some [(None, Some unavailable)])) = Panicked
   \<and> closes (chan (go_relay open_chan (Some [(Some \<lparr>Event = ''e''\<rparr>, Some unavailable)]))) = 0
   \<and> status (go_relay open_chan (Some [(Some \<lparr>Event = ''e''\<rparr>, Some unavailable)])) = Running"
  by (simp add: go_relay_def open_chan_def unavailable_def send_chan_def)

text \<open>
  C1, amended. On an open channel the goroutine closes the channel at most once. It has
  closed it exactly when it has left the loop, and it leaves the loop exactly when a
  receive returns \<open>io.EOF\<close> or \<open>context.Canceled\<close> and every receive before that gave a
  non-nil response. If no receive returns one of these two errors, whatever other errors
  are received, the channel is not closed.
\<close>

theorem relay_closes_once:
  assumes "closes ch = 0"
  shows "closes (chan (go_relay ch (Some rs))) \<le> 1
       \<and> (closes (chan (go_relay ch (Some rs))) = 1) = (status (go_relay ch (Some rs)) = Done)
       \<and> (status (go_relay ch (Some rs)) = Done) =
           ((\<exists>r\<in>set rs. terminal r) \<and> (\<forall>r\<in>set (live rs). fst r \<noteq> None))
       \<and> ((\<forall>r\<in>set rs. \<not> terminal r) \<longrightarrow> closes (chan (go_relay ch (Some rs))) = 0)"
proof -
  let ?t = "\<lparr>chan = ch, logged = [], status = Running\<rparr>"
  have c: "closes (chan (relay ?t rs)) = (if answered rs = live rs \<and> live rs \<noteq> rs then 1 else 0)"
    using assms by (simp add: relay_closes)
  have s: "status (relay ?t rs) =
     (if answered rs \<noteq> live rs then Panicked else if live rs \<noteq> rs then Done else Running)"
    using assms by (simp add: relay_status)
  show ?thesis
    unfolding go_relay_def option.case c s
    by (simp add: answered_eq_live live_neq)
qed

text \<open>
  C1, amended, at a concrete input: one event, then cancellation; the result after it is
  never received.
\<close>

theorem relay_closes_once_witness:
  "closes open_chan = 0
   \<and> go_relay open_chan (Some [(Some \<lparr>Event = ''a''\<rparr>, None), (None, Some Canceled), (None, Some EOF)])
       = \<lparr>chan = \<lparr>sent = [''a''], closes = 1\<rparr>, logged = [], status = Done\<rparr>
   \<and> closes (chan (go_relay open_chan (Some [(Some \<lparr>Event = ''a''\<rparr>, None), (None, Some Canceled), (None, Some EOF)]))) \<le> 1"
  using relay_closes_once [of open_chan "[(Some \<lparr>Event = ''a''\<rparr>, None), (None, Some Canceled), (None, Some EOF)]"]
  by (simp add: open_chan_def go_relay_def send_chan_def close_chan_def)

text \<open>
  C3. The claim is that after a receive error other than the two terminal ones the
  goroutine logs the error and goes on receiving. At a stream whose first receive returns
  a nil response with the status Unavailable, the goroutine logs the error and panics on
  the nil response: the second result, a good event, is never received.
\<close>

theorem relay_error_nil_response_panics:
  "go_relay open_chan (Some [(None, Some unavailable), (Some \<lparr>Event = ''e''\<rparr>, None)])
     = \<lparr>chan = open_chan, logged = [unavailable], status = Panicked\<rparr>"
  by (simp add: go_relay_def open_chan_def unavailable_def)

text \<open>
  C4. On an open channel and for every stream, the channel holds what it held followed
  by the events of the responses received before the first terminal receive or nil
  response, one event for each of these receives and in the order received, whether or
  not an error came with the response. In particular, when every receive of \<open>rs\<close>
  succeeds (a non-nil response and no error), the channel holds after \<open>rs\<close> exactly the
  events of \<open>rs\<close> in order, nothing dropped, repeated or reordered, and the goroutine goes
  on from there with the rest of the stream, whatever it has logged.
\<close>

theorem relay_in_order:
  assumes "closes ch = 0"
  shows "sent (chan (go_relay ch (Some rs))) = sent ch @ events (answered rs)
       \<and> events (answered rs) = map (\<lambda>r. Event (the (fst r))) (answered rs)
       \<and> ((\<forall>r\<in>set rs. fst r \<noteq> None \<and> snd r = None) \<longrightarrow>
            sent (chan (go_relay ch (Some rs))) = sent ch @ map (\<lambda>r. Event (the (fst r))) rs
          \<and> sent (chan (go_relay ch (Some (rs @ rest)))) =
              sent ch @ map (\<lambda>r. Event (the (fst r))) rs @ events (answered rest)
          \<and> (\<forall>lg. relay \<lparr>chan = ch, logged = lg, status = Running\<rparr> (rs @ rest) =
                relay \<lparr>chan = ch\<lparr>sent := sent ch @ map (\<lambda>r. Event (the (fst r))) rs\<rparr>,
                       logged = lg, status = Running\<rparr> rest))"
proof -
  have pin: "sent (chan (go_relay ch (Some xs))) = sent ch @ events (answered xs)" for xs
    using assms relay_sent [of "\<lparr>chan = ch, logged = [], status = Running\<rparr>" xs]
    by (simp add: go_relay_def)
  have one: "events (answered rs) = map (\<lambda>r. Event (the (fst r))) (answered rs)"
    using answered_responses [of rs] by (rule events_answered_map)
  have ok: "sent (chan (go_relay ch (Some rs))) = sent ch @ map (\<lambda>r. Event (the (fst r))) rs
          \<and> sent (chan (go_relay ch (Some (rs @ rest)))) =
              sent ch @ map (\<lambda>r. Event (the (fst r))) rs @ events (answered rest)
          \<and> (\<forall>lg. relay \<lparr>chan = ch, logged = lg, status = Running\<rparr> (rs @ rest) =
                relay \<lparr>chan = ch\<lparr>sent := sent ch @ map (\<lambda>r. Event (the (fst r))) rs\<rparr>,
                       logged = lg, status = Running\<rparr> rest)"
    if good: "\<forall>r\<in>set rs. fst r \<noteq> None \<and> snd r = None"
  proof -
    from good have nonnil: "\<forall>r\<in>set rs. fst r \<noteq> None" by blast
    have ev: "events rs = map (\<lambda>r. Event (the (fst r))) rs"
      using nonnil by (rule events_answered_map)
    have a1: "answered rs = rs"
      using answered_append_ok [OF good, of "[]"] by (simp add: answered_def live_def)
    have a2: "answered (rs @ rest) = rs @ answered rest"
      using good by (rule answered_append_ok)
    have s1: "sent (chan (go_relay ch (Some rs))) = sent ch @ map (\<lambda>r. Event (the (fst r))) rs"
      by (simp add: pin a1 ev)
    have s2: "sent (chan (go_relay ch (Some (rs @ rest)))) =
              sent ch @ map (\<lambda>r. Event (the (fst r))) rs @ events (answered rest)"
      by (simp add: pin a2 events_append ev)
    have s3: "relay \<lparr>chan = ch, logged = lg, status = Running\<rparr> (rs @ rest) =
                relay \<lparr>chan = ch\<lparr>sent := sent ch @ map (\<lambda>r. Event (the (fst r))) rs\<rparr>,
                       logged = lg, status = Running\<rparr> rest" for lg
      using relay_append_ok [of "\<lparr>chan = ch, logged = lg, status = Running\<rparr>" rs rest] assms good
      by (simp add: ev)
    from s1 s2 s3 show ?thesis by blast
  qed
  from pin [of rs] one ok show ?thesis by blast
qed

text \<open>
  C4, at concrete inputs: a stream in which one event comes with an error and one
  result follows the end of the stream, and two successful receives, alone and followed
  by a third event and a cancellation.
\<close>

theorem relay_in_order_witness:
  "closes open_chan = 0
   \<and> sent (chan (go_relay open_chan
        (Some [(Some \<lparr>Event = ''a''\<rparr>, None), (Some \<lparr>Event = ''b''\<rparr>, Some unavailable),
               (Some \<lparr>Event = ''a''\<rparr>, None), (None, Some EOF), (Some \<lparr>Event = ''c''\<rparr>, None)])))
       = [''a'', ''b'', ''a'']
   \<and> sent (chan (go_relay open_chan (Some [(Some \<lparr>Event = ''a''\<rparr>, None), (Some \<lparr>Event = ''b''\<rparr>, None)])))
       = [''a'', ''b'']
   \<and> sent (chan (go_relay open_chan
        (Some ([(Some \<lparr>Event = ''a''\<rparr>, None), (Some \<lparr>Event = ''b''\<rparr>, None)]
               @ [(Some \<lparr>Event = ''c''\<rparr>, None), (None, Some Canceled)]))))
       = [''a'', ''b'', ''c'']"
proof -
  have h: "closes open_chan = 0"
    by (simp add: open_chan_def)
  have g: "\<forall>r\<in>set [(Some \<lparr>Event = ''a''\<rparr>, None), (Some \<lparr>Event = ''b''\<rparr>, None)]. fst r \<noteq> None \<and> snd r = (None :: error option)"
    by simp
  have s: "sent open_chan = []"
    by (simp add: open_chan_def)
  note general = relay_in_order [OF h,
      of "[(Some \<lparr>Event = ''a''\<rparr>, None), (Some \<lparr>Event = ''b''\<rparr>, Some unavailable),
           (Some \<lparr>Event = ''a''\<rparr>, None), (None, Some EOF), (Some \<lparr>Event = ''c''\<rparr>, None)]",
      THEN conjunct1]
  note good = relay_in_order [OF h,
      of "[(Some \<lparr>Event = ''a''\<rparr>, None), (Some \<lparr>Event = ''b''\<rparr>, None)]"
         "[(Some \<lparr>Event = ''c''\<rparr>, None), (None, Some Canceled)]",
      THEN conjunct2, THEN conjunct2, THEN mp, OF g]
  have 1: "sent (chan (go_relay open_chan
        (Some [(Some \<lparr>Event = ''a''\<rparr>, None), (Some \<lparr>Event = ''b''\<rparr>, Some unavailable),
               (Some \<lparr>Event = ''a''\<rparr>, None), (None, Some EOF), (Some \<lparr>Event = ''c''\<rparr>, None)])))
       = [''a'', ''b'', ''a'']"
    unfolding general s
    by (simp add: answered_Cons terminal_def unavailable_def events_Cons events_Nil)
  have 2: "sent (chan (go_relay open_chan (Some [(Some \<lparr>Event = ''a''\<rparr>, None), (Some \<lparr>Event = ''b''\<rparr>, None)])))
       = [''a'', ''b'']"
    unfolding good [THEN conjunct1] s by simp
  have 3: "sent (chan (go_relay open_chan
        (Some ([(Some \<lparr>Event = ''a''\<rparr>, None), (Some \<lparr>Event = ''b''\<rparr>, None)]
               @ [(Some \<lparr>Event = ''c''\<rparr>, None), (None, Some Canceled)]))))
       = [''a'', ''b'', ''c'']"
    unfolding good [THEN conjunct2, THEN conjunct1] s
    by (simp add: answered_Cons terminal_def events_Cons events_Nil)
  from h 1 2 3 show ?thesis by (intro conjI)
qed



section \<open>Opening the stream\<close>

text \<open>
  C5. With a client that has a service client and an open channel, \<open>Watch\<close> sends one
  stream-open request and returns the error of that request, so it returns an error
  exactly when the request fails. In that case the channel is closed when \<open>Watch\<close>
  returns and no goroutine was started; otherwise the channel is untouched and the
  goroutine was started on the stream.
\<close>

theorem Watch_synchronous_error:
  assumes "client c = Some cl" and "closes ch = 0"
  shows "\<exists>req w. fst (Watch c ctx ch opts) = [CallWatch ctx req]
       \<and> snd (Watch c ctx ch opts) = Return w
       \<and> returned w = snd (WatchSubscriptionTasks cl ctx req)
       \<and> (returned w \<noteq> None \<longrightarrow> sink w = ch\<lparr>closes := 1\<rparr> \<and> relaying w = NotStarted)
       \<and> (returned w = None \<longrightarrow> sink w = ch
             \<and> relaying w = Started (fst (WatchSubscriptionTasks cl ctx req)))"
  using assms
  by (auto simp: Watch_def Let_def close_chan_def split: prod.splits option.splits)

text \<open>C5, at concrete inputs: a broken channel, and a stream that opens.\<close>

theorem Watch_synchronous_error_witness:
  "client sample_client = Some sample_service \<and> closes open_chan = 0
   \<and> snd (Watch sample_client False open_chan []) =
       Return \<lparr>returned = Some unavailable, sink = \<lparr>sent = [], closes = 1\<rparr>, relaying = NotStarted\<rparr>
   \<and> snd (Watch sample_client True open_chan []) =
       Return \<lparr>returned = None, sink = open_chan,
               relaying = Started (Some [(Some \<lparr>Event = ''created''\<rparr>, None), (None, Some EOF)])\<rparr>"
  using Watch_synchronous_error [of sample_client sample_service open_chan False "[]"]
    Watch_synchronous_error [of sample_client sample_service open_chan True "[]"]
  by (simp add: sample_client_def sample_service_def open_chan_def Watch_def close_chan_def)

section \<open>Get\<close>

text \<open>
  C6. \<open>Get\<close> sends one request that carries the identifier as given, whatever it is.
  When the service answers with a response and no error, \<open>Get\<close> returns the task of the
  response; when it answers with an error, \<open>Get\<close> returns that same error and no task,
  so a not-found status and a transport failure stay distinct.
\<close>

theorem Get_by_id:
  assumes "client c = Some cl"
  shows "fst (Get c ctx i) = [CallGet ctx \<lparr>ID = i\<rparr>]
       \<and> (\<forall>r. GetSubscriptionTask cl ctx \<lparr>ID = i\<rparr> = (Some r, None) \<longrightarrow>
              snd (Get c ctx i) = Return (Task r, None))
       \<and> (\<forall>resp err. GetSubscriptionTask cl ctx \<lparr>ID = i\<rparr> = (resp, Some err) \<longrightarrow>
              snd (Get c ctx i) = Return (None, Some err))"
  using assms by (simp add: Get_def Let_def split: prod.splits option.splits)

text \<open>
  C6, at concrete inputs: a task that exists, the empty identifier (not found), and a
  broken channel.
\<close>

theorem Get_by_id_witness:
  "client sample_client = Some sample_service
   \<and> Get sample_client True ''t1'' = ([CallGet True \<lparr>ID = ''t1''\<rparr>], Return (Some ''task one'', None))
   \<and> Get sample_client True [] = ([CallGet True \<lparr>ID = []\<rparr>], Return (None, Some not_found))
   \<and> Get sample_client False ''t1'' = ([CallGet False \<lparr>ID = ''t1''\<rparr>], Return (None, Some unavailable))
   \<and> not_found \<noteq> unavailable"
  using Get_by_id [of sample_client sample_service True "''t1''"]
    Get_by_id [of sample_client sample_service True "[]"]
    Get_by_id [of sample_client sample_service False "''t1''"]
  by (simp add: sample_client_def sample_service_def Get_def not_found_def unavailable_def)

section \<open>NewClient\<close>

lemma NewClient_credentials_fail:
  "GetClientCredentials e = (cfg, Some err) \<Longrightarrow>
   NewClient e ctx dst =
     ([CallGetClientCredentials], Return (Some \<lparr>conn = None, client = None\<rparr>, Some err))"
  by (simp add: NewClient_def)

lemma NewClient_no_address:
  "GetClientCredentials e = (cfg, None) \<Longrightarrow> Addrs dst = [] \<Longrightarrow>
   NewClient e ctx dst = ([CallGetClientCredentials], Panic)"
  by (simp add: NewClient_def)

lemma NewClient_dial_fail:
  "GetClientCredentials e = (cfg, None) \<Longrightarrow> Addrs dst = addr # rest \<Longrightarrow>
   DialContext e ctx addr [WithTransportCredentials (NewTLS cfg)] = (cn, Some err) \<Longrightarrow>
   NewClient e ctx dst =
     ([CallGetClientCredentials, CallDialContext ctx addr [WithTransportCredentials (NewTLS cfg)]],
      Return (Some \<lparr>conn = None, client = None\<rparr>, Some err))"
  by (simp add: NewClient_def)

lemma NewClient_connected:
  "GetClientCredentials e = (cfg, None) \<Longrightarrow> Addrs dst = addr # rest \<Longrightarrow>
   DialContext e ctx addr [WithTransportCredentials (NewTLS cfg)] = (cn, None) \<Longrightarrow>
   NewClient e ctx dst =
     ([CallGetClientCredentials, CallDialContext ctx addr [WithTransportCredentials (NewTLS cfg)]],
      Return (Some \<lparr>conn = cn, client = Some (NewE2SubscriptionTaskServiceClient e cn)\<rparr>, None))"
  by (simp add: NewClient_def)

text \<open>The four ways through \<open>NewClient\<close>.\<close>

lemma NewClient_cases:
  obtains (credentials_fail) cfg err where "GetClientCredentials e = (cfg, Some err)"
      "NewClient e ctx dst =
         ([CallGetClientCredentials], Return (Some \<lparr>conn = None, client = None\<rparr>, Some err))"
  | (no_address) cfg where "GetClientCredentials e = (cfg, None)" "Addrs dst = []"
      "NewClient e ctx dst = ([CallGetClientCredentials], Panic)"
  | (dial_fail) cfg addr rest cn err where "GetClientCredentials e = (cfg, None)"
      "Addrs dst = addr # rest"
      "DialContext e ctx addr [WithTransportCredentials (NewTLS cfg)] = (cn, Some err)"
      "NewClient e ctx dst =
         ([CallGetClientCredentials, CallDialContext ctx addr [WithTransportCredentials (NewTLS cfg)]],
          Return (Some \<lparr>conn = None, client = None\<rparr>, Some err))"
  | (connected) cfg addr rest cn where "GetClientCredentials e = (cfg, None)"
      "Addrs dst = addr # rest"
      "DialContext e ctx addr [WithTransportCredentials (NewTLS cfg)] = (cn, None)"
      "NewClient e ctx dst =
         ([CallGetClientCredentials, CallDialContext ctx addr [WithTransportCredentials (NewTLS cfg)]],
          Return (Some \<lparr>conn = cn, client = Some (NewE2SubscriptionTaskServiceClient e cn)\<rparr>, None))"
proof -
  obtain cfg ce where g: "GetClientCredentials e = (cfg, ce)" by (cases "GetClientCredentials e")
  show thesis
  proof (cases ce)
    case (Some err)
    from credentials_fail [OF g [unfolded Some] NewClient_credentials_fail [OF g [unfolded Some]]]
    show thesis .
  next
    case None
    note ok = g [unfolded None]
    show thesis
    proof (cases "Addrs dst")
      case Nil
      from no_address [OF ok Nil NewClient_no_address [OF ok Nil]]
      show thesis .
    next
      case (Cons addr rest)
      obtain cn de where d: "DialContext e ctx addr [WithTransportCredentials (NewTLS cfg)] = (cn, de)"
        by (cases "DialContext e ctx addr [WithTransportCredentials (NewTLS cfg)]")
      show thesis
      proof (cases de)
        case None
        from connected [OF ok Cons d [unfolded None] NewClient_connected [OF ok Cons d [unfolded None]]]
        show thesis .
      next
        case (Some err)
        from dial_fail [OF ok Cons d [unfolded Some] NewClient_dial_fail [OF ok Cons d [unfolded Some]]]
        show thesis .
      qed
    qed
  qed
qed

text \<open>
  C7. For a destination with more than one address, \<open>NewClient\<close> dials the first address
  once when the credentials were obtained, and dials nothing otherwise; no later address
  is dialed.
\<close>

theorem NewClient_first_address_only:
  assumes "1 < length (Addrs dst)"
  shows "dialed (fst (NewClient e ctx dst)) =
           (if snd (GetClientCredentials e) = None then [Addrs dst ! 0] else [])"
  using assms by (cases e ctx dst rule: NewClient_cases) simp_all

text \<open>
  C7, at a concrete input: the first address cannot be dialed, the second could be;
  \<open>NewClient\<close> fails on the first.
\<close>

theorem NewClient_first_address_only_witness:
  "1 < length (Addrs \<lparr>Addrs = [''bad:1'', ''good:5150'']\<rparr>)
   \<and> NewClient (sample_env True) True \<lparr>Addrs = [''bad:1'', ''good:5150'']\<rparr> =
       ([CallGetClientCredentials, CallDialContext True ''bad:1'' [WithTransportCredentials (NewTLS (Some ''tls''))]],
        Return (Some \<lparr>conn = None, client = None\<rparr>, Some unavailable))
   \<and> dialed (fst (NewClient (sample_env True) True \<lparr>Addrs = [''bad:1'', ''good:5150'']\<rparr>)) = [''bad:1'']"
  using NewClient_first_address_only [of "\<lparr>Addrs = [''bad:1'', ''good:5150'']\<rparr>" "sample_env True" True]
  by (simp add: sample_env_def NewClient_def unavailable_def)

text \<open>
  C9, as stated, fails where the credentials cannot be obtained: with an empty address
  list \<open>NewClient\<close> then returns the credential error and does not panic.
\<close>

theorem NewClient_empty_addrs_counterexample:
  "NewClient (sample_env False) True \<lparr>Addrs = []\<rparr> =
     ([CallGetClientCredentials], Return (Some \<lparr>conn = None, client = None\<rparr>, Some (Status 2 ''no credentials'')))"
  by (simp add: sample_env_def NewClient_def)

text \<open>
  C9, amended. When the credentials were obtained, \<open>NewClient\<close> panics exactly when the
  address list is empty; a panic happens before anything is dialed. When the credentials
  were not obtained, \<open>NewClient\<close> returns that error with the zero-value client, whatever
  the address list.
\<close>

theorem NewClient_index_panic:
  "(snd (GetClientCredentials e) = None \<longrightarrow>
      (snd (NewClient e ctx dst) = Panic) = (Addrs dst = []))
   \<and> (snd (NewClient e ctx dst) = Panic \<longrightarrow> dialed (fst (NewClient e ctx dst)) = [])
   \<and> (snd (GetClientCredentials e) \<noteq> None \<longrightarrow>
        NewClient e ctx dst =
          ([CallGetClientCredentials], Return (Some \<lparr>conn = None, client = None\<rparr>, snd (GetClientCredentials e))))"
  by (cases e ctx dst rule: NewClient_cases) simp_all

text \<open>C9, amended, at concrete inputs: empty and non-empty lists, with and without credentials.\<close>

theorem NewClient_index_panic_witness:
  "snd (GetClientCredentials (sample_env True)) = None
   \<and> NewClient (sample_env True) True \<lparr>Addrs = []\<rparr> = ([CallGetClientCredentials], Panic)
   \<and> snd (NewClient (sample_env True) True \<lparr>Addrs = [''good:5150'']\<rparr>) \<noteq> Panic
   \<and> snd (GetClientCredentials (sample_env False)) \<noteq> None
   \<and> snd (NewClient (sample_env False) True \<lparr>Addrs = []\<rparr>) \<noteq> Panic"
  using NewClient_index_panic [of "sample_env True" True "\<lparr>Addrs = []\<rparr>"]
    NewClient_index_panic [of "sample_env True" True "\<lparr>Addrs = [''good:5150'']\<rparr>"]
    NewClient_index_panic [of "sample_env False" True "\<lparr>Addrs = []\<rparr>"]
  by (simp add: sample_env_def NewClient_def)

text \<open>
  C10. Whenever \<open>NewClient\<close> returns an error, the client it returns with it is the
  non-nil zero-value client; this is what it returns when the credentials fail and when
  dialing fails. Its first call is for the credentials, and it dials only when the
  credentials were obtained.
\<close>

theorem NewClient_failure_result:
  "(\<forall>cl err. snd (NewClient e ctx dst) = Return (cl, Some err) \<longrightarrow>
       cl = Some \<lparr>conn = None, client = None\<rparr>)
   \<and> (\<forall>err. snd (GetClientCredentials e) = Some err \<longrightarrow>
         NewClient e ctx dst =
           ([CallGetClientCredentials], Return (Some \<lparr>conn = None, client = None\<rparr>, Some err)))
   \<and> (\<forall>cfg addr rest cn err.
         GetClientCredentials e = (cfg, None) \<and> Addrs dst = addr # rest
         \<and> DialContext e ctx addr [WithTransportCredentials (NewTLS cfg)] = (cn, Some err) \<longrightarrow>
         NewClient e ctx dst =
           ([CallGetClientCredentials, CallDialContext ctx addr [WithTransportCredentials (NewTLS cfg)]],
            Return (Some \<lparr>conn = None, client = None\<rparr>, Some err)))
   \<and> take 1 (fst (NewClient e ctx dst)) = [CallGetClientCredentials]
   \<and> (dialed (fst (NewClient e ctx dst)) \<noteq> [] \<longrightarrow> snd (GetClientCredentials e) = None)"
  by (cases e ctx dst rule: NewClient_cases) simp_all

text \<open>C10, at concrete inputs: failing credentials, and a dial that fails.\<close>

theorem NewClient_failure_result_witness:
  "snd (GetClientCredentials (sample_env False)) = Some (Status 2 ''no credentials'')
   \<and> NewClient (sample_env False) True \<lparr>Addrs = [''good:5150'']\<rparr> =
     ([CallGetClientCredentials], Return (Some \<lparr>conn = None, client = None\<rparr>, Some (Status 2 ''no credentials'')))
   \<and> GetClientCredentials (sample_env True) = (Some ''tls'', None)
   \<and> DialContext (sample_env True) True ''bad:1'' [WithTransportCredentials (NewTLS (Some ''tls''))] = (None, Some unavailable)
   \<and> NewClient (sample_env True) True \<lparr>Addrs = [''bad:1'']\<rparr> =
     ([CallGetClientCredentials, CallDialContext True ''bad:1'' [WithTransportCredentials (NewTLS (Some ''tls''))]],
      Return (Some \<lparr>conn = None, client = None\<rparr>, Some unavailable))"
proof -
  have c: "snd (GetClientCredentials (sample_env False)) = Some (Status 2 ''no credentials'')"
    by (simp add: sample_env_def)
  have g: "GetClientCredentials (sample_env True) = (Some ''tls'', None)"
    by (simp add: sample_env_def)
  have a: "Addrs \<lparr>Addrs = [''bad:1'']\<rparr> = ''bad:1'' # []"
    by simp
  have d: "DialContext (sample_env True) True ''bad:1'' [WithTransportCredentials (NewTLS (Some ''tls''))]
             = (None, Some unavailable)"
    by (simp add: sample_env_def)
  note first = NewClient_failure_result [of "sample_env False" True "\<lparr>Addrs = [''good:5150'']\<rparr>",
      THEN conjunct2, THEN conjunct1, rule_format, OF c]
  note second = NewClient_failure_result [of "sample_env True" True "\<lparr>Addrs = [''bad:1'']\<rparr>",
      THEN conjunct2, THEN conjunct2, THEN conjunct1, rule_format, OF conjI [OF g conjI [OF a d]]]
  from c first g d second show ?thesis by (intro conjI)
qed

end
